theory Spec2Isabelle
  imports Main
begin

section \<open>JavaScript strings, errors and platform functions\<close>

text \<open>
  A JavaScript string is a sequence of UTF-16 code units; it is modelled as the list of
  their numeric values. \<open>js\<close> turns an ASCII literal into such a string.
\<close>

type_synonym jsstring = "nat list"

definition js :: "string \<Rightarrow> jsstring" where
  "js s = map of_char s"

text \<open>The exceptions the modelled code can raise or receive.\<close>

datatype js_error = TypeError | SyntaxError | URIError | InvalidCharacterError

text \<open>\<open>String.prototype.startsWith\<close> and \<open>String.prototype.split\<close> with a one-character separator.\<close>

definition startsWith :: "jsstring \<Rightarrow> jsstring \<Rightarrow> bool" where
  "startsWith s p = (take (length p) s = p)"

fun split_on :: "nat \<Rightarrow> jsstring \<Rightarrow> jsstring list" where
  "split_on d [] = [[]]"
| "split_on d (c # cs) =
     (if c = d then [] # split_on d cs
      else (case split_on d cs of [] \<Rightarrow> [[c]] | x # xs \<Rightarrow> (c # x) # xs))"

subsection \<open>atob: forgiving base64 decoding\<close>

definition is_ascii_ws :: "nat \<Rightarrow> bool" where
  "is_ascii_ws c = (c = 9 \<or> c = 10 \<or> c = 12 \<or> c = 13 \<or> c = 32)"

definition b64val :: "nat \<Rightarrow> nat option" where
  "b64val c =
     (if 65 \<le> c \<and> c \<le> 90 then Some (c - 65)
      else if 97 \<le> c \<and> c \<le> 122 then Some (c - 71)
      else if 48 \<le> c \<and> c \<le> 57 then Some (c + 4)
      else if c = 43 then Some 62
      else if c = 47 then Some 63
      else None)"

fun b64_bytes :: "nat list \<Rightarrow> nat list" where
  "b64_bytes (a # b # c # d # r) =
     (a * 4 + b div 16) # ((b mod 16) * 16 + c div 4) # ((c mod 4) * 64 + d) # b64_bytes r"
| "b64_bytes [a, b, c] = [a * 4 + b div 16, (b mod 16) * 16 + c div 4]"
| "b64_bytes [a, b] = [a * 4 + b div 16]"
| "b64_bytes [a] = []"
| "b64_bytes [] = []"

definition strip_padding :: "jsstring \<Rightarrow> jsstring" where
  "strip_padding d =
     (if length d mod 4 = 0 \<and> d \<noteq> [] \<and> last d = 61
      then (if butlast d \<noteq> [] \<and> last (butlast d) = 61 then butlast (butlast d) else butlast d)
      else d)"

definition atob :: "jsstring \<Rightarrow> js_error + jsstring" where
  "atob s =
     (let d = strip_padding (filter (\<lambda>c. \<not> is_ascii_ws c) s) in
      if length d mod 4 = 1 then Inl InvalidCharacterError
      else if list_all (\<lambda>c. b64val c \<noteq> None) d then Inr (b64_bytes (map (\<lambda>c. the (b64val c)) d))
      else Inl InvalidCharacterError)"

subsection \<open>Percent-encoding of every code unit, and decodeURIComponent\<close>

definition hexdigit :: "nat \<Rightarrow> nat" where
  "hexdigit n = (if n < 10 then 48 + n else 87 + n)"

text \<open>\<open>'%' + ('00' + c.charCodeAt(0).toString(16)).slice(-2)\<close>: the last two hexadecimal digits of \<open>c\<close>.\<close>

definition percent_hex :: "nat \<Rightarrow> jsstring" where
  "percent_hex c = [37, hexdigit ((c div 16) mod 16), hexdigit (c mod 16)]"

definition hexval :: "nat \<Rightarrow> nat option" where
  "hexval c =
     (if 48 \<le> c \<and> c \<le> 57 then Some (c - 48)
      else if 97 \<le> c \<and> c \<le> 102 then Some (c - 87)
      else if 65 \<le> c \<and> c \<le> 70 then Some (c - 55)
      else None)"

definition pct_octet :: "jsstring \<Rightarrow> (nat \<times> jsstring) option" where
  "pct_octet s =
     (case s of
        p # h1 # h2 # r \<Rightarrow>
          (if p = 37 then
             (case (hexval h1, hexval h2) of
                (Some a, Some b) \<Rightarrow> Some (16 * a + b, r)
              | _ \<Rightarrow> None)
           else None)
      | _ \<Rightarrow> None)"

fun pct_octets :: "nat \<Rightarrow> jsstring \<Rightarrow> (nat list \<times> jsstring) option" where
  "pct_octets 0 s = Some ([], s)"
| "pct_octets (Suc k) s =
     (case pct_octet s of
        None \<Rightarrow> None
      | Some (b, r) \<Rightarrow>
          (case pct_octets k r of None \<Rightarrow> None | Some (bs, r') \<Rightarrow> Some (b # bs, r')))"

text \<open>Number of leading one bits of an octet, as far as the decoder distinguishes them.\<close>

definition utf8_len :: "nat \<Rightarrow> nat" where
  "utf8_len b =
     (if b < 128 then 0 else if b < 192 then 1 else if b < 224 then 2
      else if b < 240 then 3 else if b < 248 then 4 else 5)"

text \<open>
  The code point of a well-formed UTF-8 sequence (lead octet and continuation octets):
  continuation octets are \<open>10xxxxxx\<close>, the encoding is the shortest one, and the code point is
  neither a surrogate nor above U+10FFFF.
\<close>

definition utf8_code_point :: "nat \<Rightarrow> nat list \<Rightarrow> nat option" where
  "utf8_code_point b bs =
     (if list_all (\<lambda>x. 128 \<le> x \<and> x < 192) bs then
        (let n = Suc (length bs);
             lead = (if n = 2 then b - 192 else if n = 3 then b - 224 else b - 240);
             cp = foldl (\<lambda>acc x. acc * 64 + (x - 128)) lead bs;
             lo = (if n = 2 then 128 else if n = 3 then 2048 else 65536)
         in if lo \<le> cp \<and> cp \<le> 1114111 \<and> \<not> (55296 \<le> cp \<and> cp \<le> 57343) then Some cp else None)
      else None)"

definition utf16_encode :: "nat \<Rightarrow> jsstring" where
  "utf16_encode cp =
     (if cp < 65536 then [cp]
      else [55296 + (cp - 65536) div 1024, 56320 + (cp - 65536) mod 1024])"

lemma pct_octet_shorter: "pct_octet s = Some (b, r) \<Longrightarrow> length r < length s"
  by (auto simp: pct_octet_def split: list.splits if_splits option.splits)

lemma pct_octets_shorter: "pct_octets k s = Some (bs, r) \<Longrightarrow> length r \<le> length s"
proof (induction k arbitrary: s bs r)
  case 0
  then show ?case by simp
next
  case (Suc k)
  then show ?case
    by (fastforce split: option.splits dest: pct_octet_shorter)
qed

function decodeURIComponent :: "jsstring \<Rightarrow> js_error + jsstring" where
  "decodeURIComponent [] = Inr []"
| "decodeURIComponent (c # cs) =
     (if c \<noteq> 37 then
        (case decodeURIComponent cs of Inl e \<Rightarrow> Inl e | Inr t \<Rightarrow> Inr (c # t))
      else
        (case pct_octet (c # cs) of
           None \<Rightarrow> Inl URIError
         | Some (b, r) \<Rightarrow>
             (if b < 128 then
                (case decodeURIComponent r of Inl e \<Rightarrow> Inl e | Inr t \<Rightarrow> Inr (b # t))
              else if utf8_len b = 1 \<or> 4 < utf8_len b then Inl URIError
              else
                (case pct_octets (utf8_len b - 1) r of
                   None \<Rightarrow> Inl URIError
                 | Some (bs, r') \<Rightarrow>
                     (case utf8_code_point b bs of
                        None \<Rightarrow> Inl URIError
                      | Some cp \<Rightarrow>
                          (case decodeURIComponent r' of
                             Inl e \<Rightarrow> Inl e
                           | Inr t \<Rightarrow> Inr (utf16_encode cp @ t)))))))"
  by pat_completeness auto
termination
proof (relation "measure length")
  show "wf (measure length)" by simp
next
  fix c :: nat and cs :: jsstring
  show "(cs, c # cs) \<in> measure length" by simp
next
  fix c :: nat and cs x2 and x :: "nat \<times> jsstring" and b r
  assume "pct_octet (c # cs) = Some x2" "(b, r) = x2"
  then have "length r < length (c # cs)"
    using pct_octet_shorter [of "c # cs" b r] by simp
  then show "(r, c # cs) \<in> measure length" by simp
next
  fix c :: nat and cs x2 b r x2a bs r'
  assume "pct_octet (c # cs) = Some x2" "(b, r) = x2"
    "pct_octets (utf8_len b - 1) r = Some x2a" "(bs, r') = x2a"
  then have "length r < length (c # cs)" "length r' \<le> length r"
    using pct_octet_shorter [of "c # cs" b r] pct_octets_shorter [of "utf8_len b - 1" r bs r']
    by simp_all
  then show "(r', c # cs) \<in> measure length" by simp
qed


subsection \<open>JSON.parse\<close>

text \<open>
  A parsed JSON value. A number keeps its source text (the double it denotes is not
  modelled); an object keeps its members in source order, and a later member with the same
  key overrides an earlier one on lookup.
\<close>

datatype jsval =
    JNull
  | JBool bool
  | JNum jsstring
  | JStr jsstring
  | JArr "jsval list"
  | JObj "(jsstring \<times> jsval) list"

definition own_property :: "(jsstring \<times> jsval) list \<Rightarrow> jsstring \<Rightarrow> jsval option" where
  "own_property kvs k = map_of (rev kvs) k"

definition is_json_ws :: "nat \<Rightarrow> bool" where
  "is_json_ws c = (c = 9 \<or> c = 10 \<or> c = 13 \<or> c = 32)"

definition skip_ws :: "jsstring \<Rightarrow> jsstring" where
  "skip_ws s = dropWhile is_json_ws s"

definition is_digit :: "nat \<Rightarrow> bool" where
  "is_digit c = (48 \<le> c \<and> c \<le> 57)"

definition json_escape :: "nat \<Rightarrow> nat option" where
  "json_escape e =
     (if e = 34 then Some 34 else if e = 92 then Some 92 else if e = 47 then Some 47
      else if e = 98 then Some 8 else if e = 102 then Some 12 else if e = 110 then Some 10
      else if e = 114 then Some 13 else if e = 116 then Some 9 else None)"

definition hex4 :: "nat \<Rightarrow> nat \<Rightarrow> nat \<Rightarrow> nat \<Rightarrow> nat option" where
  "hex4 a b c d =
     (case (hexval a, hexval b, hexval c, hexval d) of
        (Some w, Some x, Some y, Some z) \<Rightarrow> Some (((w * 16 + x) * 16 + y) * 16 + z)
      | _ \<Rightarrow> None)"

definition cons_char :: "nat \<Rightarrow> (jsstring \<times> jsstring) option \<Rightarrow> (jsstring \<times> jsstring) option" where
  "cons_char c res = (case res of None \<Rightarrow> None | Some (t, r) \<Rightarrow> Some (c # t, r))"

text \<open>The characters of a string literal after its opening quote, up to the closing quote.\<close>

fun json_chars :: "jsstring \<Rightarrow> (jsstring \<times> jsstring) option" where
  "json_chars [] = None"
| "json_chars (c # cs) =
     (if c = 34 then Some ([], cs)
      else if c < 32 then None
      else if c = 92 then
        (case cs of
           [] \<Rightarrow> None
         | e # r \<Rightarrow>
             (if e = 117 then
                (case r of
                   h1 # h2 # h3 # h4 # r' \<Rightarrow>
                     (case hex4 h1 h2 h3 h4 of
                        None \<Rightarrow> None
                      | Some u \<Rightarrow> cons_char u (json_chars r'))
                 | _ \<Rightarrow> None)
              else
                (case json_escape e of
                   None \<Rightarrow> None
                 | Some x \<Rightarrow> cons_char x (json_chars r))))
      else cons_char c (json_chars cs))"

text \<open>
  A number: \<open>-? (0 | [1-9][0-9]*) (. [0-9]+)? ([eE] [+-]? [0-9]+)?\<close>. The result is the text
  consumed and the rest.
\<close>

definition json_int_part :: "jsstring \<Rightarrow> (jsstring \<times> jsstring) option" where
  "json_int_part s =
     (case s of
        [] \<Rightarrow> None
      | d # r \<Rightarrow>
          (if d = 48 then Some ([48], r)
           else if 49 \<le> d \<and> d \<le> 57 then Some (d # takeWhile is_digit r, dropWhile is_digit r)
           else None))"

definition json_frac_part :: "jsstring \<Rightarrow> (jsstring \<times> jsstring) option" where
  "json_frac_part s =
     (case s of
        [] \<Rightarrow> Some ([], s)
      | d # r \<Rightarrow>
          (if d = 46 then
             (if takeWhile is_digit r = [] then None
              else Some (46 # takeWhile is_digit r, dropWhile is_digit r))
           else Some ([], s)))"

definition json_exp_part :: "jsstring \<Rightarrow> (jsstring \<times> jsstring) option" where
  "json_exp_part s =
     (case s of
        [] \<Rightarrow> Some ([], s)
      | e # r \<Rightarrow>
          (if e = 101 \<or> e = 69 then
             (let sgn = (case r of [] \<Rightarrow> [] | x # _ \<Rightarrow> if x = 43 \<or> x = 45 then [x] else []);
                  r1 = drop (length sgn) r
              in if takeWhile is_digit r1 = [] then None
                 else Some (e # sgn @ takeWhile is_digit r1, dropWhile is_digit r1))
           else Some ([], s)))"

definition json_number :: "jsstring \<Rightarrow> (jsstring \<times> jsstring) option" where
  "json_number s =
     (let sgn = (case s of [] \<Rightarrow> [] | x # _ \<Rightarrow> if x = 45 then [x] else []) in
      case json_int_part (drop (length sgn) s) of
        None \<Rightarrow> None
      | Some (i, r1) \<Rightarrow>
          (case json_frac_part r1 of
             None \<Rightarrow> None
           | Some (f, r2) \<Rightarrow>
               (case json_exp_part r2 of
                  None \<Rightarrow> None
                | Some (e, r3) \<Rightarrow> Some (sgn @ i @ f @ e, r3))))"

definition json_literal :: "jsstring \<Rightarrow> (jsval \<times> jsstring) option" where
  "json_literal s =
     (if startsWith s [116, 114, 117, 101] then Some (JBool True, drop 4 s)
      else if startsWith s [102, 97, 108, 115, 101] then Some (JBool False, drop 5 s)
      else if startsWith s [110, 117, 108, 108] then Some (JNull, drop 4 s)
      else (case json_number s of None \<Rightarrow> None | Some (n, r) \<Rightarrow> Some (JNum n, r)))"

lemma skip_ws_length: "length (skip_ws s) \<le> length s"
  by (simp add: skip_ws_def length_dropWhile_le)

lemma skip_ws_Cons_length: "skip_ws s = d # r \<Longrightarrow> length r < length s"
  using skip_ws_length [of s] by simp

lemma cons_char_length:
  "cons_char c res = Some (t, r) \<Longrightarrow> \<exists>t'. res = Some (t', r)"
  by (auto simp: cons_char_def split: option.splits)

lemma json_chars_shorter: "json_chars s = Some (t, r) \<Longrightarrow> length r < length s"
proof (induction s arbitrary: t r rule: json_chars.induct)
  case 1
  then show ?case by simp
next
  case (2 c cs)
  show ?case
  proof (cases "c = 34 \<or> c < 32")
    case True
    with "2.prems" show ?thesis by (auto split: if_splits)
  next
    case False
    note plain = this
    show ?thesis
    proof (cases "c = 92")
      case False
      with plain "2.prems" obtain t' where "json_chars cs = Some (t', r)"
        by (auto dest: cons_char_length)
      with "2.IH"(3) [of t' r] plain False show ?thesis by simp
    next
      case True
      note bs = this
      show ?thesis
      proof (cases cs)
        case Nil
        with plain bs "2.prems" show ?thesis by simp
      next
        case (Cons e r0)
        show ?thesis
        proof (cases "e = 117")
          case False
          with plain bs Cons "2.prems" obtain x t' where
            "json_escape e = Some x" "json_chars r0 = Some (t', r)"
            by (auto split: option.splits dest: cons_char_length)
          with "2.IH"(2) [of e r0 x t' r] plain bs Cons False show ?thesis by simp
        next
          case True
          with plain bs Cons "2.prems" obtain h1 h2 h3 h4 r' u t' where
            r0: "r0 = h1 # h2 # h3 # h4 # r'" and "hex4 h1 h2 h3 h4 = Some u"
            and "json_chars r' = Some (t', r)"
            by (auto split: list.splits option.splits dest: cons_char_length)
          with "2.IH"(1) [of e r0 h1 "h2 # h3 # h4 # r'" h2 "h3 # h4 # r'" h3 "h4 # r'" h4 r' u t' r]
            plain bs Cons True
          show ?thesis by simp
        qed
      qed
    qed
  qed
qed

function parse_value :: "jsstring \<Rightarrow> (jsval \<times> jsstring) option"
  and parse_elements :: "jsstring \<Rightarrow> jsval list \<Rightarrow> (jsval \<times> jsstring) option"
  and parse_members :: "jsstring \<Rightarrow> (jsstring \<times> jsval) list \<Rightarrow> (jsval \<times> jsstring) option"
where
  "parse_value [] = None"
| "parse_value (c # cs) =
     (if c = 123 then
        (case skip_ws cs of
           [] \<Rightarrow> None
         | d # r \<Rightarrow> if d = 125 then Some (JObj [], r) else parse_members (d # r) [])
      else if c = 91 then
        (case skip_ws cs of
           [] \<Rightarrow> None
         | d # r \<Rightarrow> if d = 93 then Some (JArr [], r) else parse_elements (d # r) [])
      else if c = 34 then
        (case json_chars cs of None \<Rightarrow> None | Some (t, r) \<Rightarrow> Some (JStr t, r))
      else json_literal (c # cs))"
| "parse_elements s acc =
     (case parse_value s of
        None \<Rightarrow> None
      | Some (v, r) \<Rightarrow>
          (if length r < length s then
             (case skip_ws r of
                [] \<Rightarrow> None
              | d # r' \<Rightarrow>
                  (if d = 44 then parse_elements (skip_ws r') (acc @ [v])
                   else if d = 93 then Some (JArr (acc @ [v]), r')
                   else None))
           else None))"
| "parse_members s acc =
     (case s of
        [] \<Rightarrow> None
      | q # cs \<Rightarrow>
          (if q \<noteq> 34 then None
           else
             (case json_chars cs of
                None \<Rightarrow> None
              | Some (k, r1) \<Rightarrow>
                  (case skip_ws r1 of
                     [] \<Rightarrow> None
                   | col # r2 \<Rightarrow>
                       (if col \<noteq> 58 then None
                        else
                          (case parse_value (skip_ws r2) of
                             None \<Rightarrow> None
                           | Some (v, r3) \<Rightarrow>
                               (if length r3 < length (skip_ws r2) then
                                  (case skip_ws r3 of
                                     [] \<Rightarrow> None
                                   | d # r4 \<Rightarrow>
                                       (if d = 44 then parse_members (skip_ws r4) (acc @ [(k, v)])
                                        else if d = 125 then Some (JObj (acc @ [(k, v)]), r4)
                                        else None))
                                else None)))))))"
  by pat_completeness auto
termination
proof (relation "measure (\<lambda>x. case x of
            Inl s \<Rightarrow> 2 * length s
          | Inr (Inl (s, acc)) \<Rightarrow> 2 * length s + 1
          | Inr (Inr (s, acc)) \<Rightarrow> 2 * length s + 1)", goal_cases)
  case 1
  then show ?case by simp
next
  case (2 c cs d r)
  then show ?case using skip_ws_Cons_length [of cs d r] by simp
next
  case (3 c cs d r)
  then show ?case using skip_ws_Cons_length [of cs d r] by simp
next
  case (4 s acc)
  then show ?case by simp
next
  case (5 s acc x2 v r d r')
  then show ?case
    using skip_ws_Cons_length [of r d r'] skip_ws_length [of r'] by simp
next
  case (6 s acc q cs x2 k r1 col r2)
  then show ?case
    using json_chars_shorter [of cs k r1] skip_ws_Cons_length [of r1 col r2]
      skip_ws_length [of r2] by simp
next
  case (7 s acc q cs x2 k r1 col r2 x2a v r3 d r4)
  then show ?case
    using json_chars_shorter [of cs k r1] skip_ws_Cons_length [of r1 col r2]
      skip_ws_length [of r2] skip_ws_Cons_length [of r3 d r4] skip_ws_length [of r4] by simp
qed

definition JSON_parse :: "jsstring \<Rightarrow> js_error + jsval" where
  "JSON_parse text =
     (case parse_value (skip_ws text) of
        None \<Rightarrow> Inl SyntaxError
      | Some (v, r) \<Rightarrow> if skip_ws r = [] then Inr v else Inl SyntaxError)"


text \<open>Every successful parse consumes input.\<close>

lemma json_int_part_shorter: "json_int_part s = Some (i, r) \<Longrightarrow> length r < length s"
  using length_dropWhile_le [of is_digit "tl s"]
  by (auto simp: json_int_part_def split: list.splits if_splits)

lemma json_frac_part_shorter: "json_frac_part s = Some (f, r) \<Longrightarrow> length r \<le> length s"
  using length_dropWhile_le [of is_digit "tl s"]
  by (auto simp: json_frac_part_def split: list.splits if_splits)

lemma dropWhile_drop_length: "length (dropWhile P (drop k xs)) \<le> length xs"
  using length_dropWhile_le [of P "drop k xs"] by simp

lemma json_exp_part_shorter: "json_exp_part s = Some (e, r) \<Longrightarrow> length r \<le> length s"
  by (cases s)
    (auto simp: json_exp_part_def Let_def split: if_splits
      intro: le_SucI dropWhile_drop_length)

lemma json_number_shorter:
  assumes "json_number s = Some (n, r)"
  shows "length r < length s"
proof -
  define k where "k = length (case s of [] \<Rightarrow> [] | x # _ \<Rightarrow> if x = 45 then [x] else [])"
  from assms obtain i r1 f r2 e where
    i: "json_int_part (drop k s) = Some (i, r1)"
    and f: "json_frac_part r1 = Some (f, r2)"
    and e: "json_exp_part r2 = Some (e, r)"
    unfolding k_def by (auto simp: json_number_def Let_def split: option.splits)
  from json_int_part_shorter [OF i] have "length r1 < length s" by simp
  with json_frac_part_shorter [OF f] json_exp_part_shorter [OF e] show ?thesis by simp
qed

lemma startsWith_length: "p \<noteq> [] \<Longrightarrow> startsWith s p \<Longrightarrow> length (drop (length p) s) < length s"
  unfolding startsWith_def by (cases s) (auto simp: take_Cons' split: if_splits)

lemma json_literal_shorter: "json_literal s = Some (v, r) \<Longrightarrow> length r < length s"
  using startsWith_length [of "[116, 114, 117, 101]" s]
    startsWith_length [of "[102, 97, 108, 115, 101]" s]
    startsWith_length [of "[110, 117, 108, 108]" s]
  by (auto simp: json_literal_def split: if_splits option.splits dest: json_number_shorter)

lemma parse_shorter:
  "(parse_value s = Some (v, r) \<longrightarrow> length r < length s)"
  "(parse_elements s1 acc1 = Some (v1, r1) \<longrightarrow> length r1 < length s1)"
  "(parse_members s2 acc2 = Some (v2, r2) \<longrightarrow> length r2 < length s2)"
proof (induction s and s1 acc1 and s2 acc2 arbitrary: v r and v1 r1 and v2 r2
    rule: parse_value_parse_elements_parse_members.induct)
  case 1
  then show ?case by simp
next
  case (2 c cs)
  show ?case
  proof
    assume a: "parse_value (c # cs) = Some (v, r)"
    show "length r < length (c # cs)"
    proof (cases "c = 123")
      case True
      with a obtain d r0 where sk: "skip_ws cs = d # r0"
        and res: "(if d = 125 then Some (JObj [], r0) else parse_members (d # r0) []) = Some (v, r)"
        by (auto split: list.splits simp del: parse_members.simps)
      from skip_ws_Cons_length [OF sk] have short: "length r0 < length cs" .
      show ?thesis
      proof (cases "d = 125")
        case True
        with res short show ?thesis by simp
      next
        case False
        with res have "parse_members (d # r0) [] = Some (v, r)" by simp
        with "2.IH"(1) [OF \<open>c = 123\<close> sk False] have "length r < length (d # r0)" by blast
        with short show ?thesis by simp
      qed
    next
      case False
      note no_obj = this
      show ?thesis
      proof (cases "c = 91")
        case True
        with a no_obj obtain d r0 where sk: "skip_ws cs = d # r0"
          and res: "(if d = 93 then Some (JArr [], r0) else parse_elements (d # r0) []) = Some (v, r)"
          by (auto split: list.splits simp del: parse_elements.simps)
        from skip_ws_Cons_length [OF sk] have short: "length r0 < length cs" .
        show ?thesis
        proof (cases "d = 93")
          case True
          with res short show ?thesis by simp
        next
          case False
          with res have "parse_elements (d # r0) [] = Some (v, r)" by simp
          with "2.IH"(2) [OF no_obj \<open>c = 91\<close> sk False] have "length r < length (d # r0)"
            by blast
          with short show ?thesis by simp
        qed
      next
        case False
        then show ?thesis
          using a no_obj
          by (auto split: if_splits option.splits dest: json_chars_shorter json_literal_shorter)
      qed
    qed
  qed
next
  case (3 s acc)
  show ?case
  proof
    assume a: "parse_elements s acc = Some (v1, r1)"
    then obtain v0 r0 where pv: "parse_value s = Some (v0, r0)" and short: "length r0 < length s"
      by (auto split: option.splits if_splits simp del: parse_value.simps)
    from a pv short obtain d r' where sk: "skip_ws r0 = d # r'"
      and res: "(if d = 44 then parse_elements (skip_ws r') (acc @ [v0])
                 else if d = 93 then Some (JArr (acc @ [v0]), r') else None) = Some (v1, r1)"
      by (auto split: list.splits)
    from skip_ws_Cons_length [OF sk] have s1: "length r' < length r0" .
    show "length r1 < length s"
    proof (cases "d = 44")
      case True
      with res have "parse_elements (skip_ws r') (acc @ [v0]) = Some (v1, r1)" by simp
      with "3.IH"(2) [OF pv refl short sk True] have "length r1 < length (skip_ws r')" by blast
      with skip_ws_length [of r'] s1 short show ?thesis by simp
    next
      case False
      with res s1 short show ?thesis by (auto split: if_splits)
    qed
  qed
next
  case (4 s acc)
  show ?case
  proof
    assume a: "parse_members s acc = Some (v2, r2)"
    then obtain q cs where s: "s = q # cs" and q: "q = 34"
      by (cases s) (auto split: if_splits)
    from a s q obtain k ra where jc: "json_chars cs = Some (k, ra)"
      by (auto split: option.splits)
    from a s q jc obtain col rb where sk1: "skip_ws ra = col # rb" and col: "col = 58"
      by (auto split: list.splits if_splits)
    from a s q jc sk1 col obtain v0 rc where pv: "parse_value (skip_ws rb) = Some (v0, rc)"
      and short: "length rc < length (skip_ws rb)"
      by (auto split: option.splits if_splits simp del: parse_value.simps)
    from a s q jc sk1 col pv short obtain d rd where sk2: "skip_ws rc = d # rd"
      and res: "(if d = 44 then parse_members (skip_ws rd) (acc @ [(k, v0)])
                 else if d = 125 then Some (JObj (acc @ [(k, v0)]), rd) else None) = Some (v2, r2)"
      by (auto split: list.splits)
    have l1: "length ra < length cs" using json_chars_shorter [OF jc] .
    have l2: "length rb < length ra" using skip_ws_Cons_length [OF sk1] .
    have l3: "length rd < length rc" using skip_ws_Cons_length [OF sk2] .
    have l4: "length (skip_ws rb) \<le> length rb" by (rule skip_ws_length)
    show "length r2 < length s"
    proof (cases "d = 44")
      case True
      with res have "parse_members (skip_ws rd) (acc @ [(k, v0)]) = Some (v2, r2)" by simp
      with "4.IH"(2) have "length r2 < length (skip_ws rd)"
        using s q jc sk1 col pv short sk2 True by blast
      with skip_ws_length [of rd] l1 l2 l3 l4 short s show ?thesis by simp
    next
      case False
      with res l1 l2 l3 l4 short s show ?thesis by (auto split: if_splits)
    qed
  qed
qed


text \<open>
  The length tests in \<open>parse_elements\<close> and \<open>parse_members\<close> serve the termination proof
  only: a parsed value always consumes input, so the tests never fail.
\<close>

lemma parse_elements_unguarded:
  "parse_elements s acc =
     (case parse_value s of
        None \<Rightarrow> None
      | Some (v, r) \<Rightarrow>
          (case skip_ws r of
             [] \<Rightarrow> None
           | d # r' \<Rightarrow>
               (if d = 44 then parse_elements (skip_ws r') (acc @ [v])
                else if d = 93 then Some (JArr (acc @ [v]), r')
                else None)))"
  using parse_shorter(1) [of s]
  by (auto split: option.splits simp del: parse_value.simps)

lemma parse_members_unguarded:
  "parse_members s acc =
     (case s of
        [] \<Rightarrow> None
      | q # cs \<Rightarrow>
          (if q \<noteq> 34 then None
           else
             (case json_chars cs of
                None \<Rightarrow> None
              | Some (k, r1) \<Rightarrow>
                  (case skip_ws r1 of
                     [] \<Rightarrow> None
                   | col # r2 \<Rightarrow>
                       (if col \<noteq> 58 then None
                        else
                          (case parse_value (skip_ws r2) of
                             None \<Rightarrow> None
                           | Some (v, r3) \<Rightarrow>
                               (case skip_ws r3 of
                                  [] \<Rightarrow> None
                                | d # r4 \<Rightarrow>
                                    (if d = 44 then parse_members (skip_ws r4) (acc @ [(k, v)])
                                     else if d = 125 then Some (JObj (acc @ [(k, v)]), r4)
                                     else None))))))))"
  using parse_shorter(1)
  by (auto split: option.splits list.splits simp del: parse_value.simps)

subsection \<open>Property reads and string conversion of parsed values\<close>

text \<open>
  The result of reading a property: \<open>undefined\<close>, a parsed value, or a built-in function
  found on a prototype.
\<close>

datatype property = Undefined | Value jsval | NativeFunction jsstring

text \<open>
  \<open>payload.sub\<close>, \<open>payload.email\<close>, \<open>payload.role\<close>: reading one of these three names from a
  value returned by \<open>JSON.parse\<close>. Reading from \<open>null\<close> throws. An object yields its own
  member; none of the names exists on \<open>Object.prototype\<close>, \<open>Array.prototype\<close>,
  \<open>Number.prototype\<close> or \<open>Boolean.prototype\<close>, and \<open>String.prototype\<close> has the method \<open>sub\<close>.
\<close>

definition read_claim :: "jsval \<Rightarrow> jsstring \<Rightarrow> js_error + property" where
  "read_claim payload name =
     (case payload of
        JNull \<Rightarrow> Inl TypeError
      | JObj kvs \<Rightarrow> Inr (case own_property kvs name of None \<Rightarrow> Undefined | Some v \<Rightarrow> Value v)
      | JStr s \<Rightarrow> Inr (if name = js ''sub'' then NativeFunction name else Undefined)
      | _ \<Rightarrow> Inr Undefined)"

text \<open>
  \<open>v.toString()\<close> for a parsed value \<open>v\<close>. \<open>Number.prototype.toString\<close> formats a double and
  is taken as the parameter \<open>num_text\<close>, from the source text of the number to its printed
  form. An array joins the conversions of its elements with commas, \<open>null\<close> elements giving
  the empty string. An object prints as \<open>[object Object]\<close> unless it has a member named
  \<open>toString\<close>, which is not callable.
\<close>

fun js_toString :: "(jsstring \<Rightarrow> jsstring) \<Rightarrow> jsval \<Rightarrow> js_error + jsstring"
  and join_elements :: "(jsstring \<Rightarrow> jsstring) \<Rightarrow> jsval list \<Rightarrow> js_error + jsstring"
where
  "js_toString num_text JNull = Inl TypeError"
| "js_toString num_text (JBool b) = Inr (if b then js ''true'' else js ''false'')"
| "js_toString num_text (JNum n) = Inr (num_text n)"
| "js_toString num_text (JStr s) = Inr s"
| "js_toString num_text (JArr xs) = join_elements num_text xs"
| "js_toString num_text (JObj kvs) =
     (if own_property kvs (js ''toString'') = None then Inr (js ''[object Object]'')
      else Inl TypeError)"
| "join_elements num_text [] = Inr []"
| "join_elements num_text (x # xs) =
     (case (if x = JNull then Inr [] else js_toString num_text x) of
        Inl e \<Rightarrow> Inl e
      | Inr t \<Rightarrow>
          (if xs = [] then Inr t
           else (case join_elements num_text xs of
                   Inl e \<Rightarrow> Inl e
                 | Inr ts \<Rightarrow> Inr (t @ 44 # ts))))"

text \<open>\<open>Number.prototype.toString\<close> on the source text of an integer of at most fifteen digits.\<close>

definition integer_text :: "jsstring \<Rightarrow> jsstring" where
  "integer_text n = (if n = [45, 48] then [48] else n)"

subsection \<open>Headers.set\<close>

definition is_http_ws :: "nat \<Rightarrow> bool" where
  "is_http_ws c = (c = 9 \<or> c = 10 \<or> c = 13 \<or> c = 32)"

definition normalize_value :: "jsstring \<Rightarrow> jsstring" where
  "normalize_value v = rev (dropWhile is_http_ws (rev (dropWhile is_http_ws v)))"

text \<open>
  The value stored by \<open>Headers.set\<close>: leading and trailing HTTP whitespace is removed; a code
  unit above 255, a NUL, a line feed or a carriage return makes the call throw.
\<close>

definition header_value :: "jsstring \<Rightarrow> js_error + jsstring" where
  "header_value v =
     (if list_all (\<lambda>c. c \<le> 255 \<and> c \<noteq> 0 \<and> c \<noteq> 10 \<and> c \<noteq> 13) (normalize_value v)
      then Inr (normalize_value v) else Inl TypeError)"

type_synonym headers = "jsstring \<rightharpoonup> jsstring"

definition Headers_set :: "headers \<Rightarrow> jsstring \<Rightarrow> jsstring \<Rightarrow> js_error + headers" where
  "Headers_set h name v =
     (case header_value v of Inl e \<Rightarrow> Inl e | Inr n \<Rightarrow> Inr (h(name \<mapsto> n)))"

section \<open>The Auth Gate (middleware.ts)\<close>

definition PUBLIC_PATHS :: "jsstring list" where
  "PUBLIC_PATHS =
     [js ''/api/v1/auth/login'', js ''/api/v1/auth/register'', js ''/health'',
      js ''/login'', js ''/_next'', js ''/favicon.ico'']"

definition is_public_path :: "jsstring \<Rightarrow> bool" where
  "is_public_path p = list_ex (\<lambda>path. startsWith p path) PUBLIC_PATHS"

text \<open>
  \<open>decodeJwt\<close>: the second dot-separated segment of the token, with \<open>-\<close> and \<open>_\<close> replaced by
  \<open>+\<close> and \<open>/\<close>, decoded by \<open>atob\<close>, percent-encoded octet by octet, decoded by
  \<open>decodeURIComponent\<close> and parsed as JSON. A token without a dot has no second segment, and
  calling \<open>replace\<close> on \<open>undefined\<close> throws.
\<close>

definition decodeJwt :: "jsstring \<Rightarrow> js_error + jsval" where
  "decodeJwt token =
     (case split_on 46 token of
        h # base64Url # rest \<Rightarrow>
          (let base64 = map (\<lambda>c. if c = 95 then 47 else c)
                          (map (\<lambda>c. if c = 45 then 43 else c) base64Url)
           in case atob base64 of
                Inl e \<Rightarrow> Inl e
              | Inr bin \<Rightarrow>
                  (case decodeURIComponent (concat (map percent_hex bin)) of
                     Inl e \<Rightarrow> Inl e
                   | Inr jsonPayload \<Rightarrow> JSON_parse jsonPayload))
      | _ \<Rightarrow> Inl TypeError)"

record request =
  pathname :: jsstring
  cookies :: "jsstring \<rightharpoonup> jsstring"
  headers :: headers

datatype response =
    NextResponse_next
  | NextResponse_next_with headers
  | NextResponse_redirect jsstring

text \<open>\<open>payload.name?.toString() || ''\<close>.\<close>

definition claim_text :: "(jsstring \<Rightarrow> jsstring) \<Rightarrow> jsval \<Rightarrow> jsstring \<Rightarrow> js_error + jsstring" where
  "claim_text num_text payload name =
     (case read_claim payload name of
        Inl e \<Rightarrow> Inl e
      | Inr Undefined \<Rightarrow> Inr []
      | Inr (Value v) \<Rightarrow> (if v = JNull then Inr [] else js_toString num_text v)
      | Inr (NativeFunction f) \<Rightarrow> Inr (js ''function '' @ f @ js ''() { [native code] }''))"

text \<open>The body of the \<open>try\<close> block: decode the token and set the three headers in turn.\<close>

definition user_headers ::
  "(jsstring \<Rightarrow> jsstring) \<Rightarrow> headers \<Rightarrow> jsstring \<Rightarrow> js_error + headers" where
  "user_headers num_text hs token =
     (case decodeJwt token of
        Inl e \<Rightarrow> Inl e
      | Inr payload \<Rightarrow>
          (case claim_text num_text payload (js ''sub'') of
             Inl e \<Rightarrow> Inl e
           | Inr sub \<Rightarrow>
               (case Headers_set hs (js ''x-user-id'') sub of
                  Inl e \<Rightarrow> Inl e
                | Inr h1 \<Rightarrow>
                    (case claim_text num_text payload (js ''email'') of
                       Inl e \<Rightarrow> Inl e
                     | Inr email \<Rightarrow>
                         (case Headers_set h1 (js ''x-user-email'') email of
                            Inl e \<Rightarrow> Inl e
                          | Inr h2 \<Rightarrow>
                              (case claim_text num_text payload (js ''role'') of
                                 Inl e \<Rightarrow> Inl e
                               | Inr role \<Rightarrow> Headers_set h2 (js ''x-user-role'') role))))))"

text \<open>
  \<open>middleware\<close>, for a request on which it is run (the matcher of \<open>config\<close> keeps it
  from static files): public paths pass, a missing cookie and any exception of the \<open>try\<close>
  block redirect to \<open>/login\<close>, and otherwise the request goes on with the new headers.
\<close>

definition middleware :: "(jsstring \<Rightarrow> jsstring) \<Rightarrow> request \<Rightarrow> response" where
  "middleware num_text req =
     (if is_public_path (pathname req) then NextResponse_next
      else
        (case cookies req (js ''access_token'') of
           None \<Rightarrow> NextResponse_redirect (js ''/login'')
         | Some accessToken \<Rightarrow>
             (case user_headers num_text (headers req) accessToken of
                Inl error \<Rightarrow> NextResponse_redirect (js ''/login'')
              | Inr requestHeaders \<Rightarrow> NextResponse_next_with requestHeaders)))"


section \<open>The browser and the API client (lib/api-client.ts)\<close>

subsection \<open>document.cookie\<close>






text \<open>What the client code can catch and log: a rejected request or a script exception.\<close>

datatype api_error = NetworkError | HttpError nat

datatype failure = ApiFailure api_error | ScriptFailure js_error

record browser =
  cookie_jar :: "jsstring \<rightharpoonup> jsstring"
  localStorage :: "jsstring \<rightharpoonup> jsstring"
  location :: jsstring
  console :: "failure list"


subsection \<open>Requests through the shared client\<close>

text \<open>
  The answer to a request: a status in 200..299 with its body, any other status, or no
  answer at all (network failure, timeout). The server is a function from the
  \<open>Authorization\<close> header and its state to an answer and its new state.
\<close>

datatype 'a reply = Success 'a | Failure nat | NoReply

type_synonym ('s, 'a) endpoint = "jsstring option \<Rightarrow> 's \<Rightarrow> 'a reply \<times> 's"

text \<open>
  The request interceptor adds \<open>Authorization: Bearer token\<close> when local storage holds a
  non-empty \<open>access_token\<close>. The response interceptor, on status 401, removes the token
  from local storage and sets the location to \<open>/login\<close>; every failure rejects.
\<close>

definition authorization :: "browser \<Rightarrow> jsstring option" where
  "authorization b =
     (case localStorage b (js ''access_token'') of
        None \<Rightarrow> None
      | Some token \<Rightarrow> if token = [] then None else Some (js ''Bearer '' @ token))"

definition api_request ::
  "browser \<Rightarrow> ('s, 'a) endpoint \<Rightarrow> 's \<Rightarrow> (api_error + 'a) \<times> browser \<times> 's" where
  "api_request b endpoint srv =
     (case endpoint (authorization b) srv of
        (Success body, srv') \<Rightarrow> (Inr body, b, srv')
      | (NoReply, srv') \<Rightarrow> (Inl NetworkError, b, srv')
      | (Failure status, srv') \<Rightarrow>
          (if status = 401 then
             (Inl (HttpError status),
              b\<lparr>localStorage := (localStorage b)(js ''access_token'' := None),
                location := js ''/login''\<rparr>, srv')
           else (Inl (HttpError status), b, srv')))"

subsection \<open>login\<close>





section \<open>The patient hook (usePatients)\<close>

text \<open>The state every hook keeps beside its data.\<close>

record hook_status =
  loading :: bool
  error :: "api_error option"

subsection \<open>createPatient\<close>

text \<open>
  A \<open>Date\<close> object holds a time value or is invalid. \<open>new Date(v)\<close> is invalid for
  \<open>undefined\<close> and for a string that \<open>Date.parse\<close> rejects; \<open>Date.parse\<close> is taken as the
  parameter \<open>date_parse\<close>.
\<close>

datatype js_date = DateValue int | InvalidDate

definition new_Date :: "(jsstring \<Rightarrow> int option) \<Rightarrow> jsstring option \<Rightarrow> js_date" where
  "new_Date date_parse v =
     (case v of
        None \<Rightarrow> InvalidDate
      | Some s \<Rightarrow> (case date_parse s of None \<Rightarrow> InvalidDate | Some t \<Rightarrow> DateValue t))"

text \<open>
  The \<open>date_of_birth\<close> member of the payload: absent, a string, or a \<open>Date\<close> object. The
  remaining optional members of \<open>PatientCreate\<close> are kept as a map.
\<close>

datatype dob_field = Absent | DateText jsstring | DateObject js_date

record patient_create =
  full_name :: "jsstring option"
  date_of_birth :: dob_field
  gender :: jsstring
  DOB :: "jsstring option"
  other_fields :: "jsstring \<rightharpoonup> jsstring"

record 'r patient =
  ident :: nat
  patient_name :: jsstring
  birth_date :: jsstring
  patient_gender :: jsstring
  admission_type :: "jsstring option"
  discharge_location :: "jsstring option"
  ethnicity :: "jsstring option"
  drg_type :: "jsstring option"
  reports :: "'r list"

record 'r patients_state = hook_status +
  patients :: "'r patient list"
  patient :: "'r patient option"

definition createPatient ::
  "(jsstring \<Rightarrow> int option) \<Rightarrow> (patient_create \<Rightarrow> ('s, 'r patient) endpoint) \<Rightarrow>
   patient_create \<Rightarrow> 'r patients_state \<Rightarrow> browser \<Rightarrow> 's \<Rightarrow>
   (api_error + 'r patient) \<times> 'r patients_state \<times> browser \<times> 's" where
  "createPatient date_parse post_patient data st b srv =
     (let st1 = st\<lparr>loading := True, error := None\<rparr>;
          data1 = data\<lparr>date_of_birth := DateObject (new_Date date_parse (DOB data))\<rparr>
      in case api_request b (post_patient data1) srv of
           (Inr p, b1, srv1) \<Rightarrow>
             (Inr p, st1\<lparr>patients := patients st1 @ [p], loading := False\<rparr>, b1, srv1)
         | (Inl e, b1, srv1) \<Rightarrow>
             (Inl e, st1\<lparr>error := Some e, loading := False\<rparr>,
              b1\<lparr>console := console b1 @ [ApiFailure e]\<rparr>, srv1))"

subsection \<open>createReports\<close>

text \<open>The \<open>for\<close> loop: one awaited POST per report, in order; the first rejection ends it.\<close>

fun post_each ::
  "('r \<Rightarrow> ('s, 'a) endpoint) \<Rightarrow> 'r list \<Rightarrow> browser \<Rightarrow> 's \<Rightarrow> (api_error + unit) \<times> browser \<times> 's" where
  "post_each post_report [] b srv = (Inr (), b, srv)"
| "post_each post_report (report # rest) b srv =
     (case api_request b (post_report report) srv of
        (Inl e, b1, srv1) \<Rightarrow> (Inl e, b1, srv1)
      | (Inr created, b1, srv1) \<Rightarrow> post_each post_report rest b1 srv1)"

definition createReports ::
  "(nat \<Rightarrow> 'r \<Rightarrow> ('s, 'a) endpoint) \<Rightarrow> nat \<Rightarrow> 'r list \<Rightarrow> 'q patients_state \<Rightarrow> browser \<Rightarrow> 's \<Rightarrow>
   (api_error + 'r list) \<times> 'q patients_state \<times> browser \<times> 's" where
  "createReports post_report patientId report_list st b srv =
     (let st1 = st\<lparr>loading := True, error := None\<rparr>
      in case post_each (post_report patientId) report_list b srv of
           (Inr done, b1, srv1) \<Rightarrow> (Inr report_list, st1\<lparr>loading := False\<rparr>, b1, srv1)
         | (Inl e, b1, srv1) \<Rightarrow>
             (Inl e, st1\<lparr>error := Some e, loading := False\<rparr>,
              b1\<lparr>console := console b1 @ [ApiFailure e]\<rparr>, srv1))"

section \<open>The new-patient page (handleSubmit)\<close>

text \<open>
  A report as the form holds it: the four code members are a string or an array. The
  same record with parsed values is what is posted.
\<close>

datatype form_field = Text jsstring | Items "jsval list"

record 'f report =
  drg_code :: jsstring
  drg_description :: jsstring
  drg_severity :: jsstring
  drg_mortality :: jsstring
  cpt_codes :: 'f
  icd9_codes :: 'f
  procedure_pairs :: 'f
  lab_events :: 'f

text \<open>\<open>Array.prototype.join\<close> with a comma, on strings: what \<open>JSON.parse\<close> makes of an array argument.\<close>

fun join_comma :: "jsstring list \<Rightarrow> jsstring" where
  "join_comma [] = []"
| "join_comma [x] = x"
| "join_comma (x # y # ys) = x @ 44 # join_comma (y # ys)"

definition normalize_codes :: "form_field \<Rightarrow> jsval" where
  "normalize_codes f = (case f of Items xs \<Rightarrow> JArr xs | Text s \<Rightarrow> JArr (map JStr (split_on 44 s)))"

definition normalize_pairs :: "form_field \<Rightarrow> js_error + jsval" where
  "normalize_pairs f = (case f of Items xs \<Rightarrow> Inr (JArr xs) | Text s \<Rightarrow> JSON_parse s)"

definition normalize_lab_events :: "form_field \<Rightarrow> js_error + jsval" where
  "normalize_lab_events f =
     (case f of Items xs \<Rightarrow> Inr (JArr xs) | Text s \<Rightarrow> JSON_parse (join_comma (split_on 44 s)))"

definition normalize_report :: "form_field report \<Rightarrow> js_error + jsval report" where
  "normalize_report r =
     (case normalize_pairs (procedure_pairs r) of
        Inl e \<Rightarrow> Inl e
      | Inr pairs \<Rightarrow>
          (case normalize_lab_events (lab_events r) of
             Inl e \<Rightarrow> Inl e
           | Inr labs \<Rightarrow>
               Inr \<lparr>drg_code = drg_code r, drg_description = drg_description r,
                    drg_severity = drg_severity r, drg_mortality = drg_mortality r,
                    cpt_codes = normalize_codes (cpt_codes r),
                    icd9_codes = normalize_codes (icd9_codes r),
                    procedure_pairs = pairs, lab_events = labs\<rparr>))"




section \<open>The vital-signs hook (useVitalSigns)\<close>

record ('t, 'n) vital_signs_create =
  heart_rate :: "'n option"
  blood_pressure_systolic :: "'n option"
  blood_pressure_diastolic :: "'n option"
  temperature :: "'n option"
  respiratory_rate :: "'n option"
  oxygen_saturation :: "'n option"
  vital_notes :: "jsstring option"
  measured_at :: 't

record ('t, 'n) vital_signs = "('t, 'n) vital_signs_create" +
  row_id :: nat
  patient_ref :: nat
  measured_by :: nat

record ('t, 'n) vitals_state = hook_status +
  vitalSigns :: "('t, 'n) vital_signs list"
  latestVitalSigns :: "('t, 'n) vital_signs option"

definition fetchLatestVitalSigns ::
  "('s, ('t, 'n) vital_signs) endpoint \<Rightarrow> ('t, 'n) vitals_state \<Rightarrow> browser \<Rightarrow> 's \<Rightarrow>
   ('t, 'n) vitals_state \<times> browser \<times> 's" where
  "fetchLatestVitalSigns get_latest st b srv =
     (let st1 = st\<lparr>loading := True, error := None\<rparr>
      in case api_request b get_latest srv of
           (Inr row, b1, srv1) \<Rightarrow> (st1\<lparr>latestVitalSigns := Some row, loading := False\<rparr>, b1, srv1)
         | (Inl e, b1, srv1) \<Rightarrow>
             (st1\<lparr>error := Some e, loading := False\<rparr>,
              b1\<lparr>console := console b1 @ [ApiFailure e]\<rparr>, srv1))"


section \<open>The risk-assessment hook (useRiskAssessment)\<close>

record 'a risk_state = hook_status +
  latestAssessment :: "'a option"

definition createRiskAssessment ::
  "('s, 'a) endpoint \<Rightarrow> 'a risk_state \<Rightarrow> browser \<Rightarrow> 's \<Rightarrow>
   (api_error + 'a) \<times> 'a risk_state \<times> browser \<times> 's" where
  "createRiskAssessment post_assessment st b srv =
     (let st1 = st\<lparr>loading := True, error := None\<rparr>
      in case api_request b post_assessment srv of
           (Inr row, b1, srv1) \<Rightarrow>
             (Inr row, st1\<lparr>latestAssessment := Some row, loading := False\<rparr>, b1, srv1)
         | (Inl e, b1, srv1) \<Rightarrow>
             (Inl e, st1\<lparr>error := Some e, loading := False\<rparr>,
              b1\<lparr>console := console b1 @ [ApiFailure e]\<rparr>, srv1))"

text \<open>A claim as it reaches a header: its text, then the value \<open>Headers.set\<close> stores for it.\<close>

definition claim_header :: "(jsstring \<Rightarrow> jsstring) \<Rightarrow> jsval \<Rightarrow> jsstring \<Rightarrow> js_error + jsstring" where
  "claim_header num_text payload name =
     (case claim_text num_text payload name of Inl e \<Rightarrow> Inl e | Inr t \<Rightarrow> header_value t)"

section \<open>The patient-details page: the Predict Risks form\<close>





text \<open>The value of a hidden input whose source is an optional string: empty when absent.\<close>

definition input_value :: "jsstring option \<Rightarrow> jsstring" where
  "input_value v = (case v of None \<Rightarrow> [] | Some t \<Rightarrow> t)"







section \<open>The backend, modelled from the spec\<close>


text \<open>
  Modelled from the spec: the Entity Store, as far as patients and reports go. The backend
  is not among the sources. It keeps the patient payloads and the reports it accepted,
  each report with the id of its patient.
\<close>

record store =
  stored_patients :: "patient_create list"
  stored_reports :: "(nat \<times> jsval report) list"

text \<open>
  Modelled from the spec: \<open>createPatient\<close> of the Patient Aggregate Service, whose code is
  not among the sources. Full name, date of birth and gender are mandatory, the gender
  one of male, female and other; a violation is answered with 422 and stores nothing. On
  success one patient is stored and returned with the next id.
\<close>

definition insert_patient :: "patient_create \<Rightarrow> (store, 'r patient) endpoint" where
  "insert_patient body auth s =
     (case (full_name body, date_of_birth body) of
        (Some name, DateObject (DateValue t)) \<Rightarrow>
          (if gender body \<in> {js ''male'', js ''female'', js ''other''} then
             (Success \<lparr>ident = Suc (length (stored_patients s)), patient_name = name,
                       birth_date = input_value (DOB body), patient_gender = gender body,
                       admission_type = None, discharge_location = None, ethnicity = None,
                       drg_type = None, reports = []\<rparr>,
              s\<lparr>stored_patients := stored_patients s @ [body]\<rparr>)
           else (Failure 422, s))
      | _ \<Rightarrow> (Failure 422, s))"

text \<open>
  Modelled from the spec: the range of a report's DRG severity and DRG mortality, 0 to 4,
  on the one-digit text the form's select produces.
\<close>

definition valid_grade :: "jsstring \<Rightarrow> bool" where
  "valid_grade g = (case g of [c] \<Rightarrow> 48 \<le> c \<and> c \<le> 52 | _ \<Rightarrow> False)"

text \<open>
  Modelled from the spec: the insert of one report by \<open>addReports\<close> of the Patient Aggregate
  Service, whose code is not among the sources. Each insert is independent; a report whose
  severity or mortality is out of range is answered with 422 and not stored.
\<close>

definition insert_report :: "nat \<Rightarrow> jsval report \<Rightarrow> (store, jsval report) endpoint" where
  "insert_report patientId r auth s =
     (if valid_grade (drg_severity r) \<and> valid_grade (drg_mortality r)
      then (Success r, s\<lparr>stored_reports := stored_reports s @ [(patientId, r)]\<rparr>)
      else (Failure 422, s))"


text \<open>
  Modelled from the spec: \<open>latestVitals(patientId)\<close> of the Vital Signs subcomponent, whose
  code is not among the sources. It answers with the patient's row of maximum measured-at,
  the first stored among equals, and with 404 when the patient has no row.
\<close>

fun newest_row :: "('t::linorder, 'n) vital_signs list \<Rightarrow> ('t, 'n) vital_signs option" where
  "newest_row [] = None"
| "newest_row (r # rs) =
     (case newest_row rs of
        None \<Rightarrow> Some r
      | Some m \<Rightarrow> if measured_at r < measured_at m then Some m else Some r)"

definition latest_vitals ::
  "nat \<Rightarrow> (('t::linorder, 'n) vital_signs list, ('t, 'n) vital_signs) endpoint" where
  "latest_vitals patientId auth rows =
     (case newest_row (filter (\<lambda>r. patient_ref r = patientId) rows) of
        None \<Rightarrow> (Failure 404, rows)
      | Some r \<Rightarrow> (Success r, rows))"

text \<open>
  Modelled from the spec: \<open>createRiskAssessment(patientId)\<close> of the Risk Assessment
  Orchestrator, whose code is not among the sources. It gathers the patient's snapshot
  from the store and calls the external prediction collaborator; \<open>predict\<close> gives nothing on
  a network failure, a timeout or a malformed response. On a well-formed response the
  orchestrator persists a new row and returns it; otherwise it fails with
  PredictionUnavailable, answered with the status \<open>unavailable\<close>, and writes no row.
\<close>

definition risk_assessment_orchestrator ::
  "('s \<Rightarrow> nat \<Rightarrow> 'f) \<Rightarrow> ('f \<Rightarrow> 'p option) \<Rightarrow> ('s \<Rightarrow> nat \<Rightarrow> 'p \<Rightarrow> 'a \<times> 's) \<Rightarrow> nat \<Rightarrow> nat \<Rightarrow>
   ('s, 'a) endpoint" where
  "risk_assessment_orchestrator snapshot predict persist unavailable patientId auth st =
     (case predict (snapshot st patientId) of
        None \<Rightarrow> (Failure unavailable, st)
      | Some p \<Rightarrow> (case persist st patientId p of (row, st1) \<Rightarrow> (Success row, st1)))"

section \<open>Notions used by the properties, and sample data\<close>

text \<open>A server that also records every body posted to it.\<close>

definition recording :: "('b \<Rightarrow> ('s, 'a) endpoint) \<Rightarrow> 'b \<Rightarrow> ('b list \<times> 's, 'a) endpoint" where
  "recording ep body auth logged =
     (case ep body auth (snd logged) of (r, srv1) \<Rightarrow> (r, (fst logged @ [body], srv1)))"




definition fresh_browser :: browser where
  "fresh_browser =
     \<lparr>cookie_jar = Map.empty, localStorage = Map.empty, location = js ''/login'',
      console = []\<rparr>"

definition idle_hook :: "unit patients_state" where
  "idle_hook = \<lparr>loading = False, error = None, patients = [], patient = None\<rparr>"

definition empty_store :: store where
  "empty_store = \<lparr>stored_patients = [], stored_reports = []\<rparr>"

definition sample_report :: "jsstring \<Rightarrow> jsval report" where
  "sample_report severity =
     \<lparr>drg_code = js ''291'', drg_description = js ''Heart failure'',
      drg_severity = severity, drg_mortality = js ''1'',
      cpt_codes = JArr [JStr (js ''99291'')], icd9_codes = JArr [JStr (js ''4280'')],
      procedure_pairs = JArr [], lab_events = JArr []\<rparr>"


definition stored_reading :: "nat \<Rightarrow> nat \<Rightarrow> nat \<Rightarrow> (nat, nat) vital_signs" where
  "stored_reading n hr at =
     \<lparr>heart_rate = Some hr, blood_pressure_systolic = None, blood_pressure_diastolic = None,
      temperature = None, respiratory_rate = None, oxygen_saturation = None,
      vital_notes = None, measured_at = at, row_id = n, patient_ref = 1, measured_by = 9\<rparr>"

definition sample_patient_form :: patient_create where
  "sample_patient_form =
     \<lparr>full_name = Some (js ''Ann''), date_of_birth = Absent, gender = js ''female'',
      DOB = Some (js ''2000-01-01T00:00:00.000Z''), other_fields = Map.empty\<rparr>"

text \<open>A \<open>Date.parse\<close> that knows one date string.\<close>

definition known_dates :: "jsstring \<Rightarrow> int option" where
  "known_dates = [js ''2000-01-01T00:00:00.000Z'' \<mapsto> 946684800000]"



text \<open>
  For the orchestrator: the snapshot of a patient is its id, the collaborator never
  answers, and persisting appends the prediction as the new row.
\<close>

definition snapshot_id :: "nat list \<Rightarrow> nat \<Rightarrow> nat" where
  "snapshot_id st patientId = patientId"

definition collaborator_down :: "nat \<Rightarrow> nat option" where
  "collaborator_down features = None"

definition persist_row :: "nat list \<Rightarrow> nat \<Rightarrow> nat \<Rightarrow> nat \<times> nat list" where
  "persist_row st patientId p = (p, st @ [p])"





section \<open>Properties of the Auth Gate\<close>

lemmas platform_defs =
  js_def startsWith_def atob_def strip_padding_def is_ascii_ws_def b64val_def percent_hex_def
  hexdigit_def hexval_def pct_octet_def utf8_len_def utf8_code_point_def utf16_encode_def
  JSON_parse_def skip_ws_def is_json_ws_def is_digit_def json_escape_def hex4_def cons_char_def
  json_int_part_def json_frac_part_def json_exp_part_def json_number_def json_literal_def

lemmas claim_defs =
  claim_text_def read_claim_def own_property_def header_value_def normalize_value_def
  is_http_ws_def

lemma dashboard_not_public: "\<not> is_public_path (js ''/dashboard'')"
  by (simp add: is_public_path_def PUBLIC_PATHS_def startsWith_def js_def)

text \<open>Four tokens and the payloads their second segments decode to.\<close>

lemma decodeJwt_null_payload: "decodeJwt (js ''a.bnVsbA.c'') = Inr JNull"
  apply (simp add: decodeJwt_def js_def)
  apply (simp add: atob_def strip_padding_def is_ascii_ws_def b64val_def)
  apply (simp add: percent_hex_def hexdigit_def)
  apply (simp add: pct_octet_def hexval_def)
  apply (simp add: platform_defs)
  done

lemma decodeJwt_plain_payload:
  \<open>decodeJwt (js ''h.eyJzdWIiOiI3IiwiZW1haWwiOiJhQGIuYyIsInJvbGUiOiJkb2N0b3IifQ.s'') =
   Inr (JObj [(js ''sub'', JStr (js ''7'')), (js ''email'', JStr (js ''a@b.c'')),
              (js ''role'', JStr (js ''doctor''))])\<close>
  apply (simp add: decodeJwt_def js_def)
  apply (simp add: atob_def strip_padding_def is_ascii_ws_def b64val_def)
  apply (simp add: percent_hex_def hexdigit_def)
  apply (simp add: pct_octet_def hexval_def)
  apply (simp add: platform_defs)
  done

lemma decodeJwt_expired_payload:
  \<open>decodeJwt (js ''h.eyJzdWIiOiI3IiwiZW1haWwiOiJhQGIuYyIsInJvbGUiOiJkb2N0b3IiLCJleHAiOjF9.s'') =
   Inr (JObj [(js ''sub'', JStr (js ''7'')), (js ''email'', JStr (js ''a@b.c'')),
              (js ''role'', JStr (js ''doctor'')), (js ''exp'', JNum (js ''1''))])\<close>
  apply (simp add: decodeJwt_def js_def)
  apply (simp add: atob_def strip_padding_def is_ascii_ws_def b64val_def)
  apply (simp add: percent_hex_def hexdigit_def)
  apply (simp add: pct_octet_def hexval_def)
  apply (simp add: platform_defs)
  done

lemma decodeJwt_later_payload:
  \<open>decodeJwt (js ''h.eyJzdWIiOiI3IiwiZW1haWwiOiJhQGIuYyIsInJvbGUiOiJkb2N0b3IiLCJleHAiOjQxMDI0NDQ4MDB9.s'') =
   Inr (JObj [(js ''sub'', JStr (js ''7'')), (js ''email'', JStr (js ''a@b.c'')),
              (js ''role'', JStr (js ''doctor'')), (js ''exp'', JNum (js ''4102444800''))])\<close>
  apply (simp add: decodeJwt_def js_def)
  apply (simp add: atob_def strip_padding_def is_ascii_ws_def b64val_def)
  apply (simp add: percent_hex_def hexdigit_def)
  apply (simp add: pct_octet_def hexval_def)
  apply (simp add: platform_defs)
  done

lemma claim_header_null: "claim_header num_text JNull name = Inl TypeError"
  by (simp add: claim_header_def claim_text_def read_claim_def)

lemma claim_text_agree:
  assumes "own_property kvs1 name = own_property kvs2 name"
  shows "claim_text num_text (JObj kvs1) name = claim_text num_text (JObj kvs2) name"
  using assms by (simp add: claim_text_def read_claim_def)

subsection \<open>C1: rejection and forwarding\<close>

text \<open>
  C1, as stated: on a non-public path the gate redirects to \<open>/login\<close> when the
  \<open>access_token\<close> cookie is absent or the payload cannot be decoded, and otherwise forwards
  the request with the three user headers. The statement fails for the token
  \<open>a.bnVsbA.c\<close>: the cookie is present and the payload decodes (to \<open>null\<close>), yet reading
  \<open>payload.sub\<close> throws inside the \<open>try\<close> block and the request is redirected, not
  forwarded.
\<close>

theorem gate_null_payload_counterexample:
  \<open>\<not> is_public_path (js ''/dashboard'') \<and>
   decodeJwt (js ''a.bnVsbA.c'') = Inr JNull \<and>
   middleware integer_text
     \<lparr>pathname = js ''/dashboard'',
      cookies = [js ''access_token'' \<mapsto> js ''a.bnVsbA.c''],
      headers = Map.empty\<rparr>
   = NextResponse_redirect (js ''/login'')\<close>
  by (simp add: dashboard_not_public decodeJwt_null_payload middleware_def user_headers_def
      claim_text_def read_claim_def)

text \<open>
  C1, amended: on a non-public path the gate redirects to \<open>/login\<close> when the
  \<open>access_token\<close> cookie is absent, when \<open>decodeJwt\<close> throws, and when one of the claims
  \<open>sub\<close>, \<open>email\<close>, \<open>role\<close> cannot be read, converted to text or stored as a header value
  (as for a \<open>null\<close> payload); otherwise it forwards the request with \<open>x-user-id\<close>,
  \<open>x-user-email\<close> and \<open>x-user-role\<close> set to the text of the payload's \<open>sub\<close>, \<open>email\<close> and
  \<open>role\<close> claims, the empty string standing for an absent claim.
\<close>

theorem gate_redirects_or_forwards_claims:
  assumes "\<not> is_public_path (pathname req)"
  shows "middleware num_text req =
    (case cookies req (js ''access_token'') of
       None \<Rightarrow> NextResponse_redirect (js ''/login'')
     | Some token \<Rightarrow>
         (case decodeJwt token of
            Inl e \<Rightarrow> NextResponse_redirect (js ''/login'')
          | Inr payload \<Rightarrow>
              (case claim_header num_text payload (js ''sub'') of
                 Inl e \<Rightarrow> NextResponse_redirect (js ''/login'')
               | Inr uid \<Rightarrow>
                   (case claim_header num_text payload (js ''email'') of
                      Inl e \<Rightarrow> NextResponse_redirect (js ''/login'')
                    | Inr email \<Rightarrow>
                        (case claim_header num_text payload (js ''role'') of
                           Inl e \<Rightarrow> NextResponse_redirect (js ''/login'')
                         | Inr role \<Rightarrow>
                             NextResponse_next_with
                               ((headers req)(js ''x-user-id'' \<mapsto> uid,
                                  js ''x-user-email'' \<mapsto> email,
                                  js ''x-user-role'' \<mapsto> role)))))))"
  using assms
  by (simp add: middleware_def user_headers_def claim_header_def Headers_set_def
      split: option.splits sum.splits)

theorem gate_redirects_or_forwards_claims_witness:
  \<open>\<not> is_public_path (js ''/dashboard'') \<and>
   middleware integer_text
     \<lparr>pathname = js ''/dashboard'',
      cookies = [js ''access_token'' \<mapsto>
        js ''h.eyJzdWIiOiI3IiwiZW1haWwiOiJhQGIuYyIsInJvbGUiOiJkb2N0b3IifQ.s''],
      headers = Map.empty\<rparr>
   = NextResponse_next_with
       [js ''x-user-id'' \<mapsto> js ''7'', js ''x-user-email'' \<mapsto> js ''a@b.c'',
        js ''x-user-role'' \<mapsto> js ''doctor'']\<close>
  using gate_redirects_or_forwards_claims
    [of "\<lparr>pathname = js ''/dashboard'',
          cookies = [js ''access_token'' \<mapsto>
            js ''h.eyJzdWIiOiI3IiwiZW1haWwiOiJhQGIuYyIsInJvbGUiOiJkb2N0b3IifQ.s''],
          headers = Map.empty\<rparr>" integer_text]
  apply (simp add: dashboard_not_public decodeJwt_plain_payload)
  apply (simp add: claim_header_def claim_defs js_def)
  done

subsection \<open>C2: expired credentials\<close>

text \<open>
  C2, as stated: a credential whose payload decodes but whose \<open>exp\<close> lies in the past is
  rejected and never forwarded with user headers. The statement fails for a token whose
  payload is \<open>{"sub":"7","email":"a@b.c","role":"doctor","exp":1}\<close>, expired one second
  after the epoch: the request is forwarded with the three user headers.
\<close>

theorem gate_expired_token_forwarded:
  \<open>\<not> is_public_path (js ''/dashboard'') \<and>
   decodeJwt (js ''h.eyJzdWIiOiI3IiwiZW1haWwiOiJhQGIuYyIsInJvbGUiOiJkb2N0b3IiLCJleHAiOjF9.s'') =
     Inr (JObj [(js ''sub'', JStr (js ''7'')), (js ''email'', JStr (js ''a@b.c'')),
                (js ''role'', JStr (js ''doctor'')), (js ''exp'', JNum (js ''1''))]) \<and>
   middleware integer_text
     \<lparr>pathname = js ''/dashboard'',
      cookies = [js ''access_token'' \<mapsto>
        js ''h.eyJzdWIiOiI3IiwiZW1haWwiOiJhQGIuYyIsInJvbGUiOiJkb2N0b3IiLCJleHAiOjF9.s''],
      headers = Map.empty\<rparr>
   = NextResponse_next_with
       [js ''x-user-id'' \<mapsto> js ''7'', js ''x-user-email'' \<mapsto> js ''a@b.c'',
        js ''x-user-role'' \<mapsto> js ''doctor'']\<close>
  apply (simp add: dashboard_not_public decodeJwt_expired_payload middleware_def user_headers_def)
  apply (simp add: claim_defs Headers_set_def js_def)
  done

text \<open>
  C2, amended: the gate does not read \<open>exp\<close>. Two credentials whose decoded payloads are
  objects that agree on \<open>sub\<close>, \<open>email\<close> and \<open>role\<close> receive the same response, whatever
  else the payloads hold; a credential whose \<open>exp\<close> lies in the past is treated exactly as
  the same credential with a later \<open>exp\<close>.
\<close>

theorem gate_decision_ignores_exp:
  assumes "decodeJwt t1 = Inr (JObj kvs1)" and "decodeJwt t2 = Inr (JObj kvs2)"
    and "own_property kvs1 (js ''sub'') = own_property kvs2 (js ''sub'')"
    and "own_property kvs1 (js ''email'') = own_property kvs2 (js ''email'')"
    and "own_property kvs1 (js ''role'') = own_property kvs2 (js ''role'')"
  shows "middleware num_text (req\<lparr>cookies := (cookies req)(js ''access_token'' \<mapsto> t1)\<rparr>) =
         middleware num_text (req\<lparr>cookies := (cookies req)(js ''access_token'' \<mapsto> t2)\<rparr>)"
proof -
  have "user_headers num_text hs t1 = user_headers num_text hs t2" for hs
    by (simp add: user_headers_def assms(1,2) claim_text_agree [OF assms(3)]
        claim_text_agree [OF assms(4)] claim_text_agree [OF assms(5)] cong: sum.case_cong)
  then show ?thesis by (simp add: middleware_def)
qed

theorem gate_decision_ignores_exp_witness:
  \<open>middleware integer_text
     (\<lparr>pathname = js ''/dashboard'', cookies = Map.empty, headers = Map.empty\<rparr>
        \<lparr>cookies := (Map.empty :: jsstring \<rightharpoonup> jsstring)(js ''access_token'' \<mapsto>
           js ''h.eyJzdWIiOiI3IiwiZW1haWwiOiJhQGIuYyIsInJvbGUiOiJkb2N0b3IiLCJleHAiOjF9.s'')\<rparr>) =
   middleware integer_text
     (\<lparr>pathname = js ''/dashboard'', cookies = Map.empty, headers = Map.empty\<rparr>
        \<lparr>cookies := (Map.empty :: jsstring \<rightharpoonup> jsstring)(js ''access_token'' \<mapsto>
           js ''h.eyJzdWIiOiI3IiwiZW1haWwiOiJhQGIuYyIsInJvbGUiOiJkb2N0b3IiLCJleHAiOjQxMDI0NDQ4MDB9.s'')\<rparr>)\<close>
proof -
  have "own_property [(js ''sub'', JStr (js ''7'')), (js ''email'', JStr (js ''a@b.c'')),
              (js ''role'', JStr (js ''doctor'')), (js ''exp'', JNum (js ''1''))] k =
        own_property [(js ''sub'', JStr (js ''7'')), (js ''email'', JStr (js ''a@b.c'')),
              (js ''role'', JStr (js ''doctor'')), (js ''exp'', JNum (js ''4102444800''))] k"
    if "k = js ''sub'' \<or> k = js ''email'' \<or> k = js ''role''" for k
    using that by (auto simp: own_property_def js_def)
  then show ?thesis
    using gate_decision_ignores_exp
      [OF decodeJwt_expired_payload decodeJwt_later_payload, of integer_text
        "\<lparr>pathname = js ''/dashboard'', cookies = Map.empty, headers = Map.empty\<rparr>"]
    by simp
qed

section \<open>Properties of the browser client\<close>

subsection \<open>C9: where the token is kept, and what the gate reads\<close>










subsection \<open>C3: a rejected report in a batch\<close>

lemma post_each_append:
  "post_each P (xs @ ys) b srv =
     (case post_each P xs b srv of
        (Inl e, b1, srv1) \<Rightarrow> (Inl e, b1, srv1)
      | (Inr u, b1, srv1) \<Rightarrow> post_each P ys b1 srv1)"
  by (induction xs arbitrary: b srv) (auto split: prod.splits sum.splits)

text \<open>
  C3, as stated: when an earlier insert succeeds and a later one fails, the caller gets a
  partial-failure result that tells which elements succeeded and which failed, not a
  total failure. The statement fails for a batch of a valid and an invalid report: the
  caller gets the rejection of the failing request and nothing else, exactly what it gets
  for a batch of the invalid report alone, although one report was stored in the first
  case and none in the second.
\<close>

theorem createReports_partial_failure_counterexample:
  "createReports insert_report 7 [sample_report (js ''2''), sample_report (js ''9'')]
     idle_hook fresh_browser empty_store =
   (Inl (HttpError 422), idle_hook\<lparr>error := Some (HttpError 422)\<rparr>,
    fresh_browser\<lparr>console := [ApiFailure (HttpError 422)]\<rparr>,
    empty_store\<lparr>stored_reports := [(7, sample_report (js ''2''))]\<rparr>) \<and>
   createReports insert_report 7 [sample_report (js ''9'')] idle_hook fresh_browser empty_store =
   (Inl (HttpError 422), idle_hook\<lparr>error := Some (HttpError 422)\<rparr>,
    fresh_browser\<lparr>console := [ApiFailure (HttpError 422)]\<rparr>, empty_store)"
  by (simp add: createReports_def api_request_def insert_report_def valid_grade_def js_def
      authorization_def fresh_browser_def idle_hook_def empty_store_def sample_report_def)

text \<open>
  C3, amended: \<open>createReports\<close> posts the reports one at a time, in order. When the
  requests for the reports before some report succeed and the request for that report is
  rejected, the call ends with that rejection: it is thrown to the caller, stored as the
  hook's error and logged; the reports before it stay stored, and the reports after it
  are never sent.
\<close>

theorem createReports_stops_at_first_rejection:
  assumes "post_each (post_report patientId) pre b srv = (Inr (), b1, srv1)"
    and "api_request b1 (post_report patientId r) srv1 = (Inl e, b2, srv2)"
  shows "createReports post_report patientId (pre @ r # rest) st b srv =
         (Inl e, st\<lparr>loading := False, error := Some e\<rparr>,
          b2\<lparr>console := console b2 @ [ApiFailure e]\<rparr>, srv2)"
  using assms by (simp add: createReports_def post_each_append)

theorem createReports_stops_at_first_rejection_witness:
  "post_each (insert_report 7) [sample_report (js ''2'')] fresh_browser empty_store =
     (Inr (), fresh_browser, empty_store\<lparr>stored_reports := [(7, sample_report (js ''2''))]\<rparr>) \<and>
   api_request fresh_browser (insert_report 7 (sample_report (js ''9'')))
     (empty_store\<lparr>stored_reports := [(7, sample_report (js ''2''))]\<rparr>) =
     (Inl (HttpError 422), fresh_browser,
      empty_store\<lparr>stored_reports := [(7, sample_report (js ''2''))]\<rparr>) \<and>
   createReports insert_report 7
     ([sample_report (js ''2'')] @ sample_report (js ''9'') # [sample_report (js ''3'')])
     idle_hook fresh_browser empty_store =
     (Inl (HttpError 422), idle_hook\<lparr>loading := False, error := Some (HttpError 422)\<rparr>,
      fresh_browser\<lparr>console := console fresh_browser @ [ApiFailure (HttpError 422)]\<rparr>,
      empty_store\<lparr>stored_reports := [(7, sample_report (js ''2''))]\<rparr>)"
proof -
  have pre: "post_each (insert_report 7) [sample_report (js ''2'')] fresh_browser empty_store =
     (Inr (), fresh_browser, empty_store\<lparr>stored_reports := [(7, sample_report (js ''2''))]\<rparr>)"
    by (simp add: api_request_def insert_report_def valid_grade_def js_def authorization_def
        fresh_browser_def empty_store_def sample_report_def)
  have rej: "api_request fresh_browser (insert_report 7 (sample_report (js ''9'')))
     (empty_store\<lparr>stored_reports := [(7, sample_report (js ''2''))]\<rparr>) =
     (Inl (HttpError 422), fresh_browser,
      empty_store\<lparr>stored_reports := [(7, sample_report (js ''2''))]\<rparr>)"
    by (simp add: api_request_def insert_report_def valid_grade_def js_def authorization_def
        fresh_browser_def empty_store_def sample_report_def)
  from createReports_stops_at_first_rejection
    [where post_report = insert_report and patientId = 7 and rest = "[sample_report (js ''3'')]"
       and st = idle_hook, OF pre rej] pre rej
  show ?thesis by simp
qed

subsection \<open>C4: normalisation of a report\<close>

lemma parse_procedure_pairs:
  \<open>JSON_parse (js ''[[1,311],[2,3323]]'') =
   Inr (JArr [JArr [JNum (js ''1''), JNum (js ''311'')],
              JArr [JNum (js ''2''), JNum (js ''3323'')]])\<close>
  by (simp add: platform_defs)


lemma structured_codes_unchanged: "normalize_codes (Items xs) = JArr xs"
  by (simp add: normalize_codes_def)

lemma structured_pairs_unchanged:
  "normalize_pairs (Items xs) = Inr (JArr xs)" "normalize_lab_events (Items xs) = Inr (JArr xs)"
  by (simp_all add: normalize_pairs_def normalize_lab_events_def)

text \<open>
  C4: the code at the report whose \<open>cpt_codes\<close> is the string \<open>99291, 99233\<close>. The string is
  split at the comma and nothing is trimmed: the second code is posted with its leading
  space, \<open>[99291, " 99233"]\<close>, where the claim has \<open>["99291","99233"]\<close>. The procedure pairs
  given as JSON text are parsed to the array, and members given as arrays are passed on.
\<close>

theorem normalize_report_keeps_space_after_comma:
  \<open>normalize_report
     \<lparr>drg_code = js ''291'', drg_description = js ''Heart failure'',
      drg_severity = js ''2'', drg_mortality = js ''1'',
      cpt_codes = Text (js ''99291, 99233''), icd9_codes = Items [JStr (js ''4280'')],
      procedure_pairs = Text (js ''[[1,311],[2,3323]]''), lab_events = Items []\<rparr> =
   Inr \<lparr>drg_code = js ''291'', drg_description = js ''Heart failure'',
        drg_severity = js ''2'', drg_mortality = js ''1'',
        cpt_codes = JArr [JStr (js ''99291''), JStr (js '' 99233'')],
        icd9_codes = JArr [JStr (js ''4280'')],
        procedure_pairs = JArr [JArr [JNum (js ''1''), JNum (js ''311'')],
                                JArr [JNum (js ''2''), JNum (js ''3323'')]],
        lab_events = JArr []\<rparr> \<and>
   js '' 99233'' \<noteq> js ''99233''\<close>
  apply (simp add: normalize_report_def normalize_pairs_def normalize_lab_events_def
      parse_procedure_pairs)
  apply (simp add: normalize_codes_def js_def)
  done

subsection \<open>C5: malformed procedure pairs or lab events\<close>










subsection \<open>C6: the latest vital signs held by the hook\<close>


text \<open>
  Reading \<open>/vitals/latest\<close> again after that insert gives the hook the row measured at 10
  back: the maximum is what the read path returns, not what the insert path keeps.
\<close>

lemma fetchLatestVitalSigns_after_older_row:
  "fetchLatestVitalSigns (latest_vitals 1)
     \<lparr>loading = False, error = None,
      vitalSigns = [stored_reading 1 80 10, stored_reading 2 70 5],
      latestVitalSigns = Some (stored_reading 2 70 5)\<rparr>
     fresh_browser [stored_reading 1 80 10, stored_reading 2 70 5] =
   (\<lparr>loading = False, error = None,
     vitalSigns = [stored_reading 1 80 10, stored_reading 2 70 5],
     latestVitalSigns = Some (stored_reading 1 80 10)\<rparr>,
    fresh_browser, [stored_reading 1 80 10, stored_reading 2 70 5])"
  by (simp add: fetchLatestVitalSigns_def api_request_def latest_vitals_def stored_reading_def)



subsection \<open>C7: a failed prediction\<close>

text \<open>
  C7: when the orchestrator's call to the prediction collaborator fails,
  \<open>createRiskAssessment\<close> fails with the orchestrator's PredictionUnavailable answer, the
  store behind the API is left as it was, so no row is written, and the latest
  assessment held by the hook is unchanged; the hook records the error and stops loading.
\<close>

theorem failed_prediction_changes_nothing:
  assumes "predict (snapshot store patientId) = None"
  shows "(case createRiskAssessment
            (risk_assessment_orchestrator snapshot predict persist unavailable patientId)
            st b store of
          (res, st1, b1, store1) \<Rightarrow>
            res = Inl (HttpError unavailable) \<and> store1 = store \<and>
            latestAssessment st1 = latestAssessment st \<and>
            error st1 = Some (HttpError unavailable) \<and> loading st1 = False)"
  using assms
  by (simp add: createRiskAssessment_def risk_assessment_orchestrator_def api_request_def)

theorem failed_prediction_changes_nothing_witness:
  "collaborator_down (snapshot_id [41] 7) = None \<and>
   createRiskAssessment
     (risk_assessment_orchestrator snapshot_id collaborator_down persist_row 503 7)
     \<lparr>loading = False, error = None, latestAssessment = Some 41\<rparr> fresh_browser [41] =
   (Inl (HttpError 503),
    \<lparr>loading = False, error = Some (HttpError 503), latestAssessment = Some 41\<rparr>,
    fresh_browser\<lparr>console := [ApiFailure (HttpError 503)]\<rparr>, [41])"
proof -
  have down: "collaborator_down (snapshot_id [41] 7) = None"
    by (simp add: collaborator_down_def)
  from failed_prediction_changes_nothing
    [where predict = collaborator_down and snapshot = snapshot_id and store = "[41]"
       and patientId = 7 and persist = persist_row and unavailable = 503
       and st = "\<lparr>loading = False, error = None, latestAssessment = Some 41\<rparr>"
       and b = fresh_browser, OF down] down
  show ?thesis
    by (simp add: createRiskAssessment_def risk_assessment_orchestrator_def api_request_def
        fresh_browser_def split: prod.splits)
qed

subsection \<open>C8: the Predict Risks form\<close>



subsection \<open>C10: the date of birth that is posted\<close>

text \<open>
  C10: \<open>createPatient\<close> posts one body, the payload with \<open>date_of_birth\<close> replaced by
  \<open>new Date(payload.DOB)\<close>; whatever \<open>date_of_birth\<close> the caller supplied makes no difference
  to the call; and when \<open>DOB\<close> is absent or does not parse, the posted \<open>date_of_birth\<close> is an
  invalid date: the request is sent all the same.
\<close>

theorem createPatient_overwrites_date_of_birth:
  "fst (snd (snd (snd (createPatient date_parse (recording ep) data st b (sent, srv))))) =
     sent @ [data\<lparr>date_of_birth := DateObject (new_Date date_parse (DOB data))\<rparr>] \<and>
   createPatient date_parse post_patient (data\<lparr>date_of_birth := supplied\<rparr>) st b srv0 =
     createPatient date_parse post_patient data st b srv0 \<and>
   ((DOB data = None \<or> (\<exists>s. DOB data = Some s \<and> date_parse s = None)) \<longrightarrow>
      new_Date date_parse (DOB data) = InvalidDate)"
  by (auto simp: createPatient_def api_request_def recording_def new_Date_def Let_def
      split: prod.splits sum.splits reply.splits)

theorem createPatient_overwrites_date_of_birth_witness:
  "DOB (sample_patient_form\<lparr>DOB := None, date_of_birth := DateText (js ''2000-01-01'')\<rparr>) = None \<and>
   fst (snd (snd (snd
     (createPatient known_dates (recording insert_patient)
        (sample_patient_form\<lparr>DOB := None, date_of_birth := DateText (js ''2000-01-01'')\<rparr>)
        idle_hook fresh_browser ([], empty_store))))) =
   [sample_patient_form\<lparr>DOB := None, date_of_birth := DateObject InvalidDate\<rparr>]"
  using createPatient_overwrites_date_of_birth
    [where date_parse = known_dates and ep = insert_patient
       and data = "sample_patient_form\<lparr>DOB := None, date_of_birth := DateText (js ''2000-01-01'')\<rparr>"
       and st = idle_hook and b = fresh_browser and sent = "[]" and srv = empty_store
       and post_patient = insert_patient and supplied = Absent and ?srv0.0 = empty_store]
  by (simp add: new_Date_def)

end
